theory Spec2Isabelle
  imports Complex_Main
begin

section \<open>Python values used by the notebooks\<close>

text \<open>
  A Python \<open>str\<close> is a sequence of Unicode code points, so it is modelled as a list of
  natural numbers; \<open>py\<close> turns an ASCII literal into such a list.
\<close>

type_synonym pystr = "nat list"

definition py :: "string \<Rightarrow> pystr" where
  "py s = map of_char s"

text \<open>
  The exception that the modelled code raises, with its message: \<open>ValueError\<close>, raised
  by \<open>find_time_var\<close> and by \<open>math.acos\<close>.
\<close>

datatype error = ValueError pystr

text \<open>
  \<open>str.isspace\<close> for one code point: the code points that CPython treats as whitespace
  (tab to carriage return, the separators 28 to 31, space, NEL, no-break space, and the
  Unicode space separators).
\<close>

definition isspace :: "nat \<Rightarrow> bool" where
  "isspace c \<longleftrightarrow>
     (9 \<le> c \<and> c \<le> 13) \<or> (28 \<le> c \<and> c \<le> 32) \<or> c = 133 \<or> c = 160 \<or>
     c = 5760 \<or> (8192 \<le> c \<and> c \<le> 8202) \<or> c = 8232 \<or> c = 8233 \<or>
     c = 8239 \<or> c = 8287 \<or> c = 12288"

text \<open>
  \<open>s.split()\<close> without arguments: runs of whitespace separate the words, and no empty
  word is produced. \<open>split_from w s\<close> scans \<open>s\<close> with the word \<open>w\<close> collected so far.
\<close>

fun split_from :: "pystr \<Rightarrow> pystr \<Rightarrow> pystr list" where
  "split_from w [] = (if w = [] then [] else [w])"
| "split_from w (c # cs) =
     (if isspace c then (if w = [] then split_from [] cs else w # split_from [] cs)
      else split_from (w @ [c]) cs)"

definition split :: "pystr \<Rightarrow> pystr list" where
  "split s = split_from [] s"

text \<open>\<open>s.startswith(p)\<close>: the first \<open>len(p)\<close> code points of \<open>s\<close> are \<open>p\<close>.\<close>

definition startswith :: "pystr \<Rightarrow> pystr \<Rightarrow> bool" where
  "startswith s p \<longleftrightarrow> take (length p) s = p"

section \<open>850 hPa temperature advection: the helper \<open>find_time_var\<close>\<close>

text \<open>
  \<^verbatim>\<open>
  def find_time_var(var, time_basename='time'):
      for coord_name in var.coordinates.split():
          if coord_name.startswith(time_basename):
              return coord_name
      raise ValueError('No time variable found for ' + var.name)
  \<close>
  Of the netCDF variable only the two attributes that the function reads are kept.
\<close>

record variable =
  coordinates :: pystr
  name :: pystr

text \<open>The \<open>for\<close> loop over the coordinate names, with the \<open>raise\<close> after it.\<close>

fun find_time_var_loop :: "variable \<Rightarrow> pystr \<Rightarrow> pystr list \<Rightarrow> error + pystr" where
  "find_time_var_loop var time_basename [] =
     Inl (ValueError (py ''No time variable found for '' @ name var))"
| "find_time_var_loop var time_basename (coord_name # rest) =
     (if startswith coord_name time_basename then Inr coord_name
      else find_time_var_loop var time_basename rest)"

text \<open>
  The keyword argument is an option: \<open>None\<close> is a call that leaves \<open>time_basename\<close>
  out, which takes the default \<open>'time'\<close>.
\<close>

definition find_time_var :: "variable \<Rightarrow> pystr option \<Rightarrow> error + pystr" where
  "find_time_var var time_basename =
     find_time_var_loop var (case time_basename of None \<Rightarrow> py ''time'' | Some b \<Rightarrow> b)
       (split (coordinates var))"

text \<open>
  A whitespace-separated list of names, written out: leading whitespace \<open>lead\<close>, then
  each name followed by its separator. A name is not empty and has no whitespace in it;
  a separator is a non-empty run of whitespace, and after the last name the run may be
  empty.
\<close>

definition is_name :: "pystr \<Rightarrow> bool" where
  "is_name n \<longleftrightarrow> n \<noteq> [] \<and> list_all (\<lambda>c. \<not> isspace c) n"

definition is_pad :: "pystr \<Rightarrow> bool" where
  "is_pad s \<longleftrightarrow> list_all isspace s"

fun separated :: "(pystr \<times> pystr) list \<Rightarrow> bool" where
  "separated [] = True"
| "separated [(n, s)] = (is_name n \<and> is_pad s)"
| "separated ((n, s) # it # its) = (is_name n \<and> s \<noteq> [] \<and> is_pad s \<and> separated (it # its))"

definition ws_join :: "pystr \<Rightarrow> (pystr \<times> pystr) list \<Rightarrow> pystr" where
  "ws_join lead items = lead @ concat (map (\<lambda>(n, s). n @ s) items)"

section \<open>Times and dates: the class \<open>Coord\<close>\<close>

text \<open>
  \<^verbatim>\<open>
  class Coord:
      def __init__(self, latitude=0.0, longitude=0.0):
          self.lat = latitude
          self.lon = longitude

      def distancekm(self, p):
          DEGREES_TO_RADIANS = math.pi / 180.0
          EARTH_RADIUS = 6373  # in KMs
          phi1 = (90.0 - self.lat) * DEGREES_TO_RADIANS
          phi2 = (90.0 - p.lat) * DEGREES_TO_RADIANS
          theta1 = self.lon * DEGREES_TO_RADIANS
          theta2 = p.lon * DEGREES_TO_RADIANS
          cos = (math.sin(phi1) * math.sin(phi2) *
                 math.cos(theta1 - theta2) + math.cos(phi1) * math.cos(phi2))
          arc = math.acos(cos)
          return arc * EARTH_RADIUS
  \<close>
  A Python \<open>float\<close> is an IEEE 754 binary64 number. A finite one is a real number, and
  each arithmetic operation returns the exact result rounded to the nearest binary64
  number, a tie going to the even significand. Infinities and NaN are not modelled: with
  finite latitudes and longitudes no operation of \<open>distancekm\<close> overflows.
\<close>

text \<open>Rounding to the nearest integer, a tie to the even one.\<close>

definition round_half_even :: "real \<Rightarrow> int" where
  "round_half_even y =
     (let f = \<lfloor>y\<rfloor>; r = y - of_int f
      in if r < 1 / 2 then f else if 1 / 2 < r then f + 1 else if even f then f else f + 1)"

text \<open>
  The distance between neighbouring binary64 numbers in the binade of \<open>x\<close>: 52 fraction
  bits below the exponent of \<open>x\<close>, the exponent being at least \<open>-1022\<close> (below it the
  numbers are subnormal).
\<close>

definition ulp :: "real \<Rightarrow> real" where
  "ulp x = 2 powr (of_int (max \<lfloor>log 2 \<bar>x\<bar>\<rfloor> (- 1022)) - 52)"

definition rnd :: "real \<Rightarrow> real" where
  "rnd x = (if x = 0 then 0 else of_int (round_half_even (x / ulp x)) * ulp x)"

text \<open>The operators \<open>+\<close>, \<open>-\<close>, \<open>*\<close> and \<open>/\<close> of \<open>float\<close>.\<close>

definition fadd :: "real \<Rightarrow> real \<Rightarrow> real" where
  "fadd x y = rnd (x + y)"

definition fsub :: "real \<Rightarrow> real \<Rightarrow> real" where
  "fsub x y = rnd (x - y)"

definition fmul :: "real \<Rightarrow> real \<Rightarrow> real" where
  "fmul x y = rnd (x * y)"

definition fdiv :: "real \<Rightarrow> real \<Rightarrow> real" where
  "fdiv x y = rnd (x / y)"

text \<open>\<open>math.pi\<close> is the binary64 number nearest to \<open>\<pi>\<close>, \<open>3.141592653589793\<close>.\<close>

definition math_pi :: real where
  "math_pi = 884279719003555 / 281474976710656"

text \<open>
  \<open>math.sin\<close>, \<open>math.cos\<close> and \<open>math.acos\<close> call the C library of the platform, whose code
  is not part of the repository and whose results are not correctly rounded on every
  platform. They are parameters of the model: the functions from a binary64 argument to
  the binary64 result that the library returns.
\<close>

record math =
  math_sin :: "real \<Rightarrow> real"
  math_cos :: "real \<Rightarrow> real"
  math_acos :: "real \<Rightarrow> real"

record Coord =
  lat :: real
  lon :: real

text \<open>The local variable \<open>cos\<close> of \<open>distancekm\<close>, the argument of \<open>math.acos\<close>.\<close>

definition distancekm_cos :: "math \<Rightarrow> Coord \<Rightarrow> Coord \<Rightarrow> real" where
  "distancekm_cos m self p =
     (let DEGREES_TO_RADIANS = fdiv math_pi 180;
          phi1 = fmul (fsub 90 (lat self)) DEGREES_TO_RADIANS;
          phi2 = fmul (fsub 90 (lat p)) DEGREES_TO_RADIANS;
          theta1 = fmul (lon self) DEGREES_TO_RADIANS;
          theta2 = fmul (lon p) DEGREES_TO_RADIANS
      in fadd (fmul (fmul (math_sin m phi1) (math_sin m phi2)) (math_cos m (fsub theta1 theta2)))
              (fmul (math_cos m phi1) (math_cos m phi2)))"

text \<open>\<open>math.acos\<close> raises \<open>ValueError\<close> outside the interval from -1 to 1.\<close>

definition acos :: "math \<Rightarrow> real \<Rightarrow> error + real" where
  "acos m x =
     (if -1 \<le> x \<and> x \<le> 1 then Inr (math_acos m x)
      else Inl (ValueError (py ''math domain error'')))"

definition distancekm :: "math \<Rightarrow> Coord \<Rightarrow> Coord \<Rightarrow> error + real" where
  "distancekm m self p =
     (let EARTH_RADIUS = 6373
      in case acos m (distancekm_cos m self p) of
           Inl e \<Rightarrow> Inl e
         | Inr arc \<Rightarrow> Inr (fmul arc EARTH_RADIUS))"

section \<open>850 hPa temperature advection: the calculation cell\<close>

text \<open>
  \<^verbatim>\<open>
  dx, dy = mpcalc.lat_lon_grid_deltas(lon_var, lat_var)
  adv = mpcalc.advection(temp_850, [u_wind_850, v_wind_850],
                         (dx, dy), dim_order='yx')
  Z_850 = mpcalc.smooth_gaussian(hght_850, 2)
  adv = mpcalc.smooth_gaussian(adv, 2)
  \<close>
  The three functions belong to the imported library \<open>metpy.calc\<close>; the notebook only
  calls them. They are parameters of the model: a record of functions over a type
  \<open>'c\<close> of coordinate variables and a type \<open>'a\<close> of arrays, each of which may raise
  an exception of type \<open>'e\<close>.
\<close>

record ('c, 'a, 'e) mpcalc =
  mpcalc_lat_lon_grid_deltas :: "'c \<Rightarrow> 'c \<Rightarrow> 'e + 'a \<times> 'a"
  mpcalc_advection :: "'a \<Rightarrow> 'a list \<Rightarrow> 'a \<times> 'a \<Rightarrow> pystr \<Rightarrow> 'e + 'a"
  mpcalc_smooth_gaussian :: "'a \<Rightarrow> int \<Rightarrow> 'e + 'a"

text \<open>The variables that the cell reads; the cells before it have bound them.\<close>

record ('c, 'a) cell_inputs =
  lon_var :: 'c
  lat_var :: 'c
  temp_850 :: 'a
  u_wind_850 :: 'a
  v_wind_850 :: 'a
  hght_850 :: 'a

text \<open>
  The cell, statement by statement. An exception of a library call ends the cell.
  The result is the tuple of the variables that the cell binds, \<open>(dx, dy, Z_850, adv)\<close>,
  with \<open>adv\<close> as its last assignment leaves it.
\<close>

definition calculations ::
  "('c, 'a, 'e) mpcalc \<Rightarrow> ('c, 'a) cell_inputs \<Rightarrow> 'e + 'a \<times> 'a \<times> 'a \<times> 'a" where
  "calculations mp inp =
     (case mpcalc_lat_lon_grid_deltas mp (lon_var inp) (lat_var inp) of
        Inl e \<Rightarrow> Inl e
      | Inr (dx, dy) \<Rightarrow>
     (case mpcalc_advection mp (temp_850 inp) [u_wind_850 inp, v_wind_850 inp] (dx, dy) (py ''yx'') of
        Inl e \<Rightarrow> Inl e
      | Inr adv \<Rightarrow>
     (case mpcalc_smooth_gaussian mp (hght_850 inp) 2 of
        Inl e \<Rightarrow> Inl e
      | Inr Z_850 \<Rightarrow>
     (case mpcalc_smooth_gaussian mp adv 2 of
        Inl e \<Rightarrow> Inl e
      | Inr adv' \<Rightarrow> Inr (dx, dy, Z_850, adv')))))"

text \<open>
  To see which library call made each result, the library is run symbolically: an array
  is an input variable of the notebook, named, or the application of a library function
  to arrays, and no call raises.
\<close>

datatype sym =
    Var pystr
  | Deltas_x sym sym
  | Deltas_y sym sym
  | Advection sym "sym list" sym sym pystr
  | Smooth_gaussian sym int

definition symbolic :: "(sym, sym, error) mpcalc" where
  "symbolic =
     \<lparr>mpcalc_lat_lon_grid_deltas =
        (\<lambda>longitude latitude. Inr (Deltas_x longitude latitude, Deltas_y longitude latitude)),
      mpcalc_advection = (\<lambda>scalar wind (dx, dy) dim_order. Inr (Advection scalar wind dx dy dim_order)),
      mpcalc_smooth_gaussian = (\<lambda>scalar_grid n. Inr (Smooth_gaussian scalar_grid n))\<rparr>"

definition notebook_inputs :: "(sym, sym) cell_inputs" where
  "notebook_inputs =
     \<lparr>lon_var = Var (py ''lon_var''), lat_var = Var (py ''lat_var''),
      temp_850 = Var (py ''temp_850''), u_wind_850 = Var (py ''u_wind_850''),
      v_wind_850 = Var (py ''v_wind_850''), hght_850 = Var (py ''hght_850'')\<rparr>"

text \<open>\<open>smoothed_of x y\<close>: the array \<open>y\<close> is a Gaussian-smoothed version of \<open>x\<close>.\<close>

fun smoothed_of :: "sym \<Rightarrow> sym \<Rightarrow> bool" where
  "smoothed_of x (Smooth_gaussian y n) = (x = y)"
| "smoothed_of x _ = False"

section \<open>The grid advection module of the specification\<close>

text \<open>
  The notebook takes the advection from the library \<open>metpy.calc\<close>, whose code is not part
  of the notebook. The specification describes it as the operation \<open>advection\<close> of its
  grid advection module (sections 3, 4.2 and 7), and the definitions of this section
  follow that description. A field is a list of rows of real numbers, the row index
  running along \<open>y\<close> (latitude) and the column index along \<open>x\<close> (longitude). The numbers
  are the magnitudes in consistent units: unit tags are not modelled, and neither is
  floating-point rounding.
\<close>

text \<open>
  Modelled from the spec: the data model of section 3 (\<open>ScalarField\<close>, the components
  of a \<open>VectorField\<close>, \<open>GridSpacing\<close>, \<open>AdvectionField\<close>: arrays of real numbers of
  shape \<open>M \<times> N\<close>).
\<close>

type_synonym field = "real list list"

text \<open>Modelled from the spec: the error taxonomy of section 7.\<close>

datatype grid_error = InvalidGridError | ShapeMismatchError | UnitMismatchError

text \<open>
  Modelled from the spec: the shape \<open>M \<times> N\<close> of an array (section 3), \<open>M\<close> rows of
  \<open>N\<close> entries each.
\<close>

definition has_shape :: "nat \<Rightarrow> nat \<Rightarrow> field \<Rightarrow> bool" where
  "has_shape M N a \<longleftrightarrow> length a = M \<and> list_all (\<lambda>row. length row = N) a"

definition nrows :: "field \<Rightarrow> nat" where
  "nrows a = length a"

definition ncols :: "field \<Rightarrow> nat" where
  "ncols a = (case a of [] \<Rightarrow> 0 | row # _ \<Rightarrow> length row)"

text \<open>
  Modelled from the spec: an operation applied "at each grid point" (section 4.2) to
  two arrays of the same shape.
\<close>

definition elementwise :: "(real \<Rightarrow> real \<Rightarrow> real) \<Rightarrow> field \<Rightarrow> field \<Rightarrow> field" where
  "elementwise f a b = map2 (map2 f) a b"

text \<open>
  Modelled from the spec: the finite difference of section 4.2 along one grid axis, in
  index units: centered at an interior point, one-sided at the two ends (forward at the
  first point, backward at the last). It is used on sequences of at least two points.
\<close>

definition difference_at :: "real list \<Rightarrow> nat \<Rightarrow> real" where
  "difference_at xs k =
     (if k = 0 then xs ! 1 - xs ! 0
      else if Suc k = length xs then xs ! k - xs ! (k - 1)
      else (xs ! (k + 1) - xs ! (k - 1)) / 2)"

definition differences :: "real list \<Rightarrow> real list" where
  "differences xs = map (difference_at xs) [0..<length xs]"

text \<open>
  Modelled from the spec: "the centered finite-difference gradient of the scalar field
  along each grid axis" (section 4.2): along \<open>x\<close> within each row, along \<open>y\<close> within
  each column.
\<close>

definition gradient_x :: "field \<Rightarrow> field" where
  "gradient_x T = map differences T"

definition gradient_y :: "field \<Rightarrow> field" where
  "gradient_y T = transpose (map differences (transpose T))"

text \<open>
  Modelled from the spec: the operation \<open>advection\<close> of section 4.2, which stands for the
  library function \<open>mpcalc.advection\<close> that the notebook calls. The gradient along each
  axis is divided by the spacing array of that axis, and the result is the negative dot
  product with the wind at each grid point. Arrays that do not share the shape of the
  scalar field are refused with \<open>ShapeMismatchError\<close> before anything is computed
  (sections 4.2 and 7). A grid with fewer than two points along an axis has no finite
  difference; it is refused with \<open>InvalidGridError\<close>, the error of section 7 for
  coordinate sequences that are too short.
\<close>

definition advection ::
  "field \<Rightarrow> field \<times> field \<Rightarrow> field \<times> field \<Rightarrow> grid_error + field" where
  "advection scalarField windComponents spacing =
     (let (u, v) = windComponents; (dx, dy) = spacing;
          M = nrows scalarField; N = ncols scalarField
      in if \<not> list_all (has_shape M N) [scalarField, u, v, dx, dy] then Inl ShapeMismatchError
         else if M < 2 \<or> N < 2 then Inl InvalidGridError
         else
           let dTdx = elementwise (/) (gradient_x scalarField) dx;
               dTdy = elementwise (/) (gradient_y scalarField) dy
           in Inr (elementwise (\<lambda>a b. - (a + b)) (elementwise (*) u dTdx) (elementwise (*) v dTdy)))"

text \<open>
  Modelled from the spec: the vocabulary of the properties of section 8. "Doubling" a
  wind component multiplies each of its entries by 2; a "spatially uniform" field has the
  same value at every grid point; and a spacing array holds distances, none of them
  zero, so that every division by a spacing is defined.
\<close>

definition scale :: "real \<Rightarrow> field \<Rightarrow> field" where
  "scale k a = map (map ((*) k)) a"

definition uniform :: "nat \<Rightarrow> nat \<Rightarrow> real \<Rightarrow> field" where
  "uniform M N t = replicate M (replicate N t)"

definition nonzero :: "field \<Rightarrow> bool" where
  "nonzero a \<longleftrightarrow> list_all (list_all (\<lambda>x. x \<noteq> 0)) a"

section \<open>Splitting at whitespace\<close>

lemma split_from_word:
  "list_all (\<lambda>c. \<not> isspace c) n \<Longrightarrow> split_from w (n @ r) = split_from (w @ n) r"
  by (induction n arbitrary: w) auto

lemma split_from_pad:
  "is_pad s \<Longrightarrow> split_from [] (s @ r) = split_from [] r"
  unfolding is_pad_def by (induction s) auto

lemma split_from_sep:
  "is_pad s \<Longrightarrow> s \<noteq> [] \<Longrightarrow> w \<noteq> [] \<Longrightarrow> split_from w (s @ r) = w # split_from [] r"
  by (cases s) (auto simp: split_from_pad is_pad_def)

lemma split_from_end:
  assumes "is_pad s" and "w \<noteq> []"
  shows "split_from w s = [w]"
proof (cases "s = []")
  case True
  with assms show ?thesis by simp
next
  case False
  with assms split_from_sep [of s w "[]"] show ?thesis by simp
qed

lemma split_from_items:
  "separated items \<Longrightarrow> split_from [] (concat (map (\<lambda>(n, s). n @ s) items)) = map fst items"
proof (induction items rule: separated.induct)
  case 1
  then show ?case by simp
next
  case (2 n s)
  then show ?case
    using split_from_word [of n "[]" s] split_from_end [of s n]
    by (simp add: is_name_def)
next
  case (3 n s it its)
  then have n: "is_name n" and s: "is_pad s" "s \<noteq> []" and r: "separated (it # its)"
    by simp_all
  let ?r = "concat (map (\<lambda>(n, s). n @ s) (it # its))"
  have "split_from [] (n @ s @ ?r) = split_from n (s @ ?r)"
    using n split_from_word [of n "[]" "s @ ?r"] by (simp add: is_name_def)
  also have "\<dots> = n # split_from [] ?r"
    using n s by (simp add: split_from_sep is_name_def)
  also have "\<dots> = n # map fst (it # its)"
    using "3.IH" r by simp
  finally show ?case by simp
qed

lemma split_ws_join:
  "is_pad lead \<Longrightarrow> separated items \<Longrightarrow> split (ws_join lead items) = map fst items"
  by (simp add: split_def ws_join_def split_from_pad split_from_items)

lemma find_time_var_loop_find:
  "find_time_var_loop var b ns =
     (case List.find (\<lambda>n. startswith n b) ns of
        Some n \<Rightarrow> Inr n
      | None \<Rightarrow> Inl (ValueError (py ''No time variable found for '' @ name var)))"
  by (induction ns) simp_all

section \<open>The time coordinate of a variable\<close>

text \<open>
  C9. When the \<open>coordinates\<close> attribute of \<open>var\<close> is a whitespace-separated list of
  names, \<open>find_time_var var time_basename\<close> returns the first name of the list that
  starts with \<open>time_basename\<close> (\<open>'time'\<close> when the argument is left out), and when no
  name of the list starts with it, the call raises \<open>ValueError\<close> with the message
  \<open>'No time variable found for '\<close> followed by the name of the variable.
\<close>

theorem find_time_var_first_match:
  assumes "is_pad lead" and "separated items" and "coordinates var = ws_join lead items"
  shows "find_time_var var time_basename =
     (case List.find (\<lambda>n. startswith n (case time_basename of None \<Rightarrow> py ''time'' | Some b \<Rightarrow> b))
             (map fst items) of
        Some n \<Rightarrow> Inr n
      | None \<Rightarrow> Inl (ValueError (py ''No time variable found for '' @ name var)))"
  using assms by (simp add: find_time_var_def split_ws_join find_time_var_loop_find)

theorem find_time_var_first_match_witness:
  "is_pad [] \<and>
   separated [(py ''reftime'', py '' ''), (py ''time1'', py ''  ''), (py ''isobaric'', py '' ''),
              (py ''lat'', py '' ''), (py ''lon'', [])] \<and>
   find_time_var \<lparr>coordinates = py ''reftime time1  isobaric lat lon'',
                   name = py ''Temperature_isobaric''\<rparr> None = Inr (py ''time1'') \<and>
   find_time_var \<lparr>coordinates = py ''reftime time1  isobaric lat lon'',
                   name = py ''Temperature_isobaric''\<rparr> (Some (py ''valid'')) =
     Inl (ValueError (py ''No time variable found for Temperature_isobaric''))"
proof -
  let ?items = "[(py ''reftime'', py '' ''), (py ''time1'', py ''  ''), (py ''isobaric'', py '' ''),
              (py ''lat'', py '' ''), (py ''lon'', [])]"
  let ?var = "\<lparr>coordinates = py ''reftime time1  isobaric lat lon'',
                   name = py ''Temperature_isobaric''\<rparr>"
  have p: "is_pad []"
    by (simp add: is_pad_def)
  have s: "separated ?items"
    by (simp add: is_pad_def is_name_def py_def isspace_def)
  have c: "coordinates ?var = ws_join [] ?items"
    by (simp add: ws_join_def py_def)
  show ?thesis
    using p s find_time_var_first_match [OF p s c, of None]
      find_time_var_first_match [OF p s c, of "Some (py ''valid'')"]
    by (simp add: startswith_def py_def)
qed

section \<open>Great-circle distance in binary64 arithmetic\<close>

lemma round_half_even_minus: "round_half_even (- y) = - round_half_even y"
proof (cases "y = of_int \<lfloor>y\<rfloor>")
  case True
  then have "\<lfloor>- y\<rfloor> = - \<lfloor>y\<rfloor>"
    by (metis floor_of_int of_int_minus)
  with True show ?thesis
    by (simp add: round_half_even_def Let_def)
next
  case False
  then have f: "\<lfloor>- y\<rfloor> = - \<lfloor>y\<rfloor> - 1"
    by (simp add: floor_minus ceiling_altdef)
  have lt: "of_int \<lfloor>y\<rfloor> < y"
    using False of_int_floor_le [of y] by linarith
  show ?thesis
    using lt by (auto simp: round_half_even_def Let_def f)
qed

lemma ulp_minus: "ulp (- x) = ulp x"
  by (simp add: ulp_def)

lemma rnd_minus: "rnd (- x) = - rnd x"
  by (simp add: rnd_def ulp_minus round_half_even_minus)

lemma rnd_0: "rnd 0 = 0"
  by (simp add: rnd_def)

lemma fsub_swap: "fsub x y = - fsub y x"
  unfolding fsub_def rnd_minus [symmetric] by simp

lemma fmul_commute: "fmul x y = fmul y x"
  by (simp add: fmul_def mult.commute)

text \<open>
  Multiplication commutes and a difference changes its sign with its operands, also after
  rounding; so the argument of \<open>math.acos\<close> is the same in both directions when the
  library's cosine is an even function.
\<close>

lemma distancekm_cos_commute:
  assumes "\<And>x. math_cos m (- x) = math_cos m x"
  shows "distancekm_cos m a b = distancekm_cos m b a"
proof -
  have "math_cos m (fsub x y) = math_cos m (fsub y x)" for x y
    using assms [of "fsub y x"] fsub_swap [of x y] by simp
  then show ?thesis
    by (simp add: distancekm_cos_def Let_def fmul_commute)
qed

lemma round_half_even_near:
  assumes "\<bar>y - of_int k\<bar> < 1 / 2"
  shows "round_half_even y = k"
proof -
  have "\<lfloor>y\<rfloor> = k \<or> \<lfloor>y\<rfloor> = k - 1"
    using assms by (auto simp: floor_eq_iff abs_less_iff)
  then show ?thesis
    using assms by (auto simp: round_half_even_def Let_def abs_less_iff)
qed

lemma rnd_eqI:
  assumes e: "- 1022 \<le> e"
    and lo: "2 powr of_int e \<le> \<bar>x\<bar>" and hi: "\<bar>x\<bar> < 2 powr of_int (e + 1)"
    and k: "\<bar>x - of_int k * 2 powr of_int (e - 52)\<bar> < 2 powr of_int (e - 52) / 2"
  shows "rnd x = of_int k * 2 powr of_int (e - 52)"
proof -
  have "0 < 2 powr (of_int e :: real)"
    by simp
  with lo have pos: "0 < \<bar>x\<bar>"
    by linarith
  then have x: "x \<noteq> 0" by simp
  have "of_int e \<le> log 2 \<bar>x\<bar>"
    using lo pos by (simp add: le_log_iff)
  moreover have "log 2 \<bar>x\<bar> < of_int (e + 1)"
    using hi pos by (simp add: log_less_iff)
  ultimately have "\<lfloor>log 2 \<bar>x\<bar>\<rfloor> = e"
    by (simp add: floor_eq_iff)
  with e have u: "ulp x = 2 powr of_int (e - 52)"
    by (simp add: ulp_def max_def)
  have "\<bar>x / 2 powr of_int (e - 52) - of_int k\<bar> < 1 / 2"
  proof -
    have "x / 2 powr of_int (e - 52) - of_int k
        = (x - of_int k * 2 powr of_int (e - 52)) / 2 powr of_int (e - 52)"
      by (simp add: field_simps)
    then have "\<bar>x / 2 powr of_int (e - 52) - of_int k\<bar>
        = \<bar>x - of_int k * 2 powr of_int (e - 52)\<bar> / 2 powr of_int (e - 52)"
      by simp
    also have "\<dots> < (2 powr of_int (e - 52) / 2) / 2 powr of_int (e - 52)"
      using k by (intro divide_strict_right_mono) simp_all
    also have "\<dots> = 1 / 2"
      by simp
    finally show ?thesis .
  qed
  then have "round_half_even (x / ulp x) = k"
    unfolding u by (rule round_half_even_near)
  with x u show ?thesis
    by (simp add: rnd_def)
qed

lemma rnd_1: "rnd 1 = 1"
  using rnd_eqI [of 0 1 "2 ^ 52"] by (simp add: powr_neg_numeral)

text \<open>
  The rounded product commutes but is not associative. The source multiplies the two
  sines first, \<open>(sin(phi1) * sin(phi2)) * cos(theta1 - theta2)\<close>, and that product does not
  depend on the order of the two points; bracketed the other way it would, as the two
  products below show for the sines \<open>0.75\<close> and \<open>0.7\<close> and the cosine \<open>0.9375\<close>:
  \<open>0.4921875\<close> one way and \<open>0.49218749999999994\<close> the other.
\<close>

lemma fmul_not_associative:
  "fmul (3 / 4) (fmul (3152519739159347 / 4503599627370496) (15 / 16)) = 63 / 128 \<and>
   fmul (3152519739159347 / 4503599627370496) (fmul (3 / 4) (15 / 16))
     = 8866461766385663 / 18014398509481984"
proof -
  have 1: "fmul (3152519739159347 / 4503599627370496) (15 / 16) = 21 / 32"
    using rnd_eqI [of "- 1" "3152519739159347 / 4503599627370496 * (15 / 16)" 5910974510923776]
    by (simp add: fmul_def powr_neg_numeral)
  have 2: "fmul (3 / 4) (15 / 16) = 45 / 64"
    using rnd_eqI [of "- 1" "3 / 4 * (15 / 16)" 6333186975989760]
    by (simp add: fmul_def powr_neg_numeral)
  have 3: "fmul (3 / 4) (21 / 32) = 63 / 128"
    using rnd_eqI [of "- 2" "3 / 4 * (21 / 32)" 8866461766385664]
    by (simp add: fmul_def powr_neg_numeral)
  have 4: "fmul (3152519739159347 / 4503599627370496) (45 / 64)
      = 8866461766385663 / 18014398509481984"
    using rnd_eqI [of "- 2" "3152519739159347 / 4503599627370496 * (45 / 64)" 8866461766385663]
    by (simp add: fmul_def powr_neg_numeral)
  show ?thesis
    by (simp only: 1 2 3 4 simp_thms)
qed

text \<open>
  Rounding can take the argument of \<open>math.acos\<close> out of the interval. At latitude 8 the
  angle \<open>phi\<close> is \<open>1.4311699866353502\<close>; on a platform whose library returns
  \<open>0.9902680687415704\<close> for its sine and \<open>0.13917310096006547\<close> for its cosine, the
  distance of \<open>Coord(8, 0)\<close> from itself has the argument \<open>1.0000000000000002\<close>, and the
  call raises \<open>ValueError\<close>.
\<close>

lemma distancekm_domain_error:
  assumes sin: "math_sin m (6445416618514801 / 4503599627370496)
                = 4459770905381437 / 4503599627370496"
    and cos: "math_cos m (6445416618514801 / 4503599627370496)
                = 2507119702494989 / 18014398509481984"
    and cos0: "math_cos m 0 = 1"
  shows "distancekm_cos m \<lparr>lat = 8, lon = 0\<rparr> \<lparr>lat = 8, lon = 0\<rparr>
           = 4503599627370497 / 4503599627370496 \<and>
         distancekm m \<lparr>lat = 8, lon = 0\<rparr> \<lparr>lat = 8, lon = 0\<rparr>
           = Inl (ValueError (py ''math domain error''))"
proof -
  have D: "fdiv math_pi 180 = 5030569068109113 / 288230376151711744"
    unfolding fdiv_def math_pi_def
    using rnd_eqI [of "- 6" "884279719003555 / 281474976710656 / 180" 5030569068109113]
    by (simp add: powr_neg_numeral)
  have c: "fsub 90 8 = 82"
    using rnd_eqI [of 6 82 5770237022568448]
    by (simp add: fsub_def powr_neg_numeral)
  have phi: "fmul 82 (5030569068109113 / 288230376151711744)
      = 6445416618514801 / 4503599627370496"
    using rnd_eqI [of 0 "82 * (5030569068109113 / 288230376151711744)" 6445416618514801]
    by (simp add: fmul_def powr_neg_numeral)
  have ss: "fmul (4459770905381437 / 4503599627370496) (4459770905381437 / 4503599627370496)
      = 8832737443003841 / 9007199254740992"
    using rnd_eqI [of "- 1"
        "4459770905381437 / 4503599627370496 * (4459770905381437 / 4503599627370496)"
        8832737443003841]
    by (simp add: fmul_def powr_neg_numeral)
  have ss1: "fmul (8832737443003841 / 9007199254740992) 1 = 8832737443003841 / 9007199254740992"
    using rnd_eqI [of "- 1" "8832737443003841 / 9007199254740992" 8832737443003841]
    by (simp add: fmul_def powr_neg_numeral)
  have cc: "fmul (2507119702494989 / 18014398509481984) (2507119702494989 / 18014398509481984)
      = 2791388987794435 / 144115188075855872"
    using rnd_eqI [of "- 6"
        "2507119702494989 / 18014398509481984 * (2507119702494989 / 18014398509481984)"
        5582777975588870]
    by (simp add: fmul_def powr_neg_numeral)
  have sum: "fadd (8832737443003841 / 9007199254740992) (2791388987794435 / 144115188075855872)
      = 4503599627370497 / 4503599627370496"
    using rnd_eqI [of 0
        "8832737443003841 / 9007199254740992 + 2791388987794435 / 144115188075855872"
        4503599627370497]
    by (simp add: fadd_def powr_neg_numeral)
  have z: "fmul 0 x = 0" "fsub 0 0 = 0" for x
    by (simp_all add: fmul_def fsub_def rnd_0)
  have arg: "distancekm_cos m \<lparr>lat = 8, lon = 0\<rparr> \<lparr>lat = 8, lon = 0\<rparr>
           = 4503599627370497 / 4503599627370496"
    by (simp add: distancekm_cos_def Let_def D c phi z sin cos cos0 ss ss1 cc sum)
  then show ?thesis
    by (simp add: distancekm_def acos_def)
qed

text \<open>
  C10. \<open>distancekm\<close> is symmetric: for two \<open>Coord\<close> objects \<open>a\<close> and \<open>b\<close> whose latitudes
  and longitudes are (finite) floating-point numbers, \<open>a.distancekm(b)\<close> and
  \<open>b.distancekm(a)\<close> do the same, and when the argument of \<open>math.acos\<close> lies between -1
  and 1 both return the same number. The arithmetic is binary64 arithmetic with its
  rounding; of the C library it is only used that its cosine is even,
  \<open>cos(-x) = cos(x)\<close>.
\<close>

theorem distancekm_symmetric:
  assumes "\<And>x. math_cos m (- x) = math_cos m x"
  shows "distancekm m a b = distancekm m b a \<and>
     (-1 \<le> distancekm_cos m a b \<and> distancekm_cos m a b \<le> 1 \<longrightarrow>
        (\<exists>d. distancekm m a b = Inr d \<and> distancekm m b a = Inr d))"
  using distancekm_cos_commute [OF assms, of a b] by (simp add: distancekm_def acos_def)

text \<open>
  The witness takes a library that rounds the exact sine, cosine and arc cosine, and the
  north pole at two different longitudes.
\<close>

theorem distancekm_symmetric_witness:
  "(\<forall>x. rnd (cos (- x)) = rnd (cos x)) \<and>
   distancekm_cos \<lparr>math_sin = \<lambda>x. rnd (sin x), math_cos = \<lambda>x. rnd (cos x),
       math_acos = \<lambda>x. rnd (arccos x)\<rparr> \<lparr>lat = 90, lon = 0\<rparr> \<lparr>lat = 90, lon = 45\<rparr> = 1 \<and>
   distancekm \<lparr>math_sin = \<lambda>x. rnd (sin x), math_cos = \<lambda>x. rnd (cos x),
       math_acos = \<lambda>x. rnd (arccos x)\<rparr> \<lparr>lat = 90, lon = 0\<rparr> \<lparr>lat = 90, lon = 45\<rparr> = Inr 0 \<and>
   distancekm \<lparr>math_sin = \<lambda>x. rnd (sin x), math_cos = \<lambda>x. rnd (cos x),
       math_acos = \<lambda>x. rnd (arccos x)\<rparr> \<lparr>lat = 90, lon = 45\<rparr> \<lparr>lat = 90, lon = 0\<rparr> = Inr 0"
proof -
  let ?m = "\<lparr>math_sin = \<lambda>x. rnd (sin x), math_cos = \<lambda>x. rnd (cos x),
       math_acos = \<lambda>x. rnd (arccos x)\<rparr>"
  have even: "math_cos ?m (- x) = math_cos ?m x" for x
    by simp
  have z: "fmul 0 x = 0" "fsub 90 90 = 0" "fmul 1 1 = 1" "fadd 0 1 = 1" for x
    by (simp_all add: fmul_def fsub_def fadd_def rnd_0 rnd_1)
  have arg: "distancekm_cos ?m \<lparr>lat = 90, lon = 0\<rparr> \<lparr>lat = 90, lon = 45\<rparr> = 1"
    by (simp add: distancekm_cos_def Let_def z rnd_0 rnd_1)
  have ab: "distancekm ?m \<lparr>lat = 90, lon = 0\<rparr> \<lparr>lat = 90, lon = 45\<rparr> = Inr 0"
    by (simp add: distancekm_def acos_def arg z rnd_0)
  have sym: "distancekm ?m \<lparr>lat = 90, lon = 0\<rparr> \<lparr>lat = 90, lon = 45\<rparr>
      = distancekm ?m \<lparr>lat = 90, lon = 45\<rparr> \<lparr>lat = 90, lon = 0\<rparr>"
    using distancekm_symmetric [of ?m "\<lparr>lat = 90, lon = 0\<rparr>" "\<lparr>lat = 90, lon = 45\<rparr>", OF even]
    by (rule conjunct1)
  have "\<forall>x. rnd (cos (- x)) = rnd (cos x)"
    by simp
  with arg ab sym show ?thesis
    by (simp only: simp_thms)
qed

section \<open>What the calculation cell smooths\<close>

lemma calculations_symbolic:
  "calculations symbolic notebook_inputs =
     Inr (Deltas_x (Var (py ''lon_var'')) (Var (py ''lat_var'')),
          Deltas_y (Var (py ''lon_var'')) (Var (py ''lat_var'')),
          Smooth_gaussian (Var (py ''hght_850'')) 2,
          Smooth_gaussian
            (Advection (Var (py ''temp_850'')) [Var (py ''u_wind_850''), Var (py ''v_wind_850'')]
               (Deltas_x (Var (py ''lon_var'')) (Var (py ''lat_var'')))
               (Deltas_y (Var (py ''lon_var'')) (Var (py ''lat_var''))) (py ''yx'')) 2)"
  by (simp add: calculations_def symbolic_def notebook_inputs_def)

text \<open>
  C8, as the specification states it, fails: the cell binds four arrays, and none of them
  is a Gaussian-smoothed version of the source scalar field \<open>temp_850\<close>, the field whose
  advection is computed.
\<close>

theorem calculations_source_field_not_smoothed:
  "calculations symbolic notebook_inputs =
     Inr (Deltas_x (Var (py ''lon_var'')) (Var (py ''lat_var'')),
          Deltas_y (Var (py ''lon_var'')) (Var (py ''lat_var'')),
          Smooth_gaussian (Var (py ''hght_850'')) 2,
          Smooth_gaussian
            (Advection (Var (py ''temp_850'')) [Var (py ''u_wind_850''), Var (py ''v_wind_850'')]
               (Deltas_x (Var (py ''lon_var'')) (Var (py ''lat_var'')))
               (Deltas_y (Var (py ''lon_var'')) (Var (py ''lat_var''))) (py ''yx'')) 2) \<and>
   \<not> smoothed_of (Var (py ''temp_850'')) (Deltas_x (Var (py ''lon_var'')) (Var (py ''lat_var''))) \<and>
   \<not> smoothed_of (Var (py ''temp_850'')) (Deltas_y (Var (py ''lon_var'')) (Var (py ''lat_var''))) \<and>
   \<not> smoothed_of (Var (py ''temp_850'')) (Smooth_gaussian (Var (py ''hght_850'')) 2) \<and>
   \<not> smoothed_of (Var (py ''temp_850''))
       (Smooth_gaussian
          (Advection (Var (py ''temp_850'')) [Var (py ''u_wind_850''), Var (py ''v_wind_850'')]
             (Deltas_x (Var (py ''lon_var'')) (Var (py ''lat_var'')))
             (Deltas_y (Var (py ''lon_var'')) (Var (py ''lat_var''))) (py ''yx'')) 2)"
  by (simp add: calculations_symbolic py_def)

text \<open>
  C8, amended. For every library and all inputs, the cell completes exactly when its four
  library calls do, and then \<open>Z_850\<close> is the Gaussian-smoothed (degree 2) geopotential
  height field \<open>hght_850\<close>, and \<open>adv\<close> is the Gaussian-smoothed (degree 2) advection of
  \<open>temp_850\<close> by the wind \<open>[u_wind_850, v_wind_850]\<close> on the grid deltas \<open>(dx, dy)\<close>:
  smoothing is applied to the height field and to the advection field, not to the
  temperature field.
\<close>

theorem calculations_smooths_height_and_advection:
  "calculations mp inp = Inr (dx, dy, Z_850, adv') \<longleftrightarrow>
     (\<exists>adv. mpcalc_lat_lon_grid_deltas mp (lon_var inp) (lat_var inp) = Inr (dx, dy) \<and>
        mpcalc_advection mp (temp_850 inp) [u_wind_850 inp, v_wind_850 inp] (dx, dy) (py ''yx'')
          = Inr adv \<and>
        mpcalc_smooth_gaussian mp (hght_850 inp) 2 = Inr Z_850 \<and>
        mpcalc_smooth_gaussian mp adv 2 = Inr adv')"
  by (auto simp: calculations_def split: sum.splits)

theorem calculations_smooths_height_and_advection_witness:
  "calculations symbolic notebook_inputs =
     Inr (Deltas_x (Var (py ''lon_var'')) (Var (py ''lat_var'')),
          Deltas_y (Var (py ''lon_var'')) (Var (py ''lat_var'')),
          Smooth_gaussian (hght_850 notebook_inputs) 2,
          Smooth_gaussian
            (Advection (temp_850 notebook_inputs)
               [u_wind_850 notebook_inputs, v_wind_850 notebook_inputs]
               (Deltas_x (Var (py ''lon_var'')) (Var (py ''lat_var'')))
               (Deltas_y (Var (py ''lon_var'')) (Var (py ''lat_var''))) (py ''yx'')) 2)"
  using calculations_smooths_height_and_advection
    [of symbolic notebook_inputs
      "Deltas_x (Var (py ''lon_var'')) (Var (py ''lat_var''))"
      "Deltas_y (Var (py ''lon_var'')) (Var (py ''lat_var''))"
      "Smooth_gaussian (hght_850 notebook_inputs) 2"
      "Smooth_gaussian
            (Advection (temp_850 notebook_inputs)
               [u_wind_850 notebook_inputs, v_wind_850 notebook_inputs]
               (Deltas_x (Var (py ''lon_var'')) (Var (py ''lat_var'')))
               (Deltas_y (Var (py ''lon_var'')) (Var (py ''lat_var''))) (py ''yx'')) 2"]
  by (simp add: symbolic_def notebook_inputs_def)

section \<open>Fields and finite differences\<close>

lemma has_shape_row: "has_shape M N a \<Longrightarrow> i < M \<Longrightarrow> length (a ! i) = N"
  by (auto simp: has_shape_def list_all_length)

lemma has_shape_rows: "has_shape M N a \<Longrightarrow> length a = M"
  by (simp add: has_shape_def)

lemma has_shapeI: "length a = M \<Longrightarrow> (\<And>i. i < M \<Longrightarrow> length (a ! i) = N) \<Longrightarrow> has_shape M N a"
  by (auto simp: has_shape_def list_all_length)

lemma shape_of_field:
  assumes "has_shape M N a" and "0 < M"
  shows "nrows a = M \<and> ncols a = N"
  using assms by (cases a) (auto simp: has_shape_def nrows_def ncols_def)

lemma field_eqI:
  assumes "has_shape M N a" and "has_shape M N b"
    and "\<And>i j. i < M \<Longrightarrow> j < N \<Longrightarrow> a ! i ! j = b ! i ! j"
  shows "a = b"
proof (rule nth_equalityI)
  show "length a = length b"
    using assms(1,2) by (simp add: has_shape_def)
next
  fix i assume "i < length a"
  then have i: "i < M" using assms(1) by (simp add: has_shape_def)
  show "a ! i = b ! i"
  proof (rule nth_equalityI)
    show "length (a ! i) = length (b ! i)"
      using i assms(1,2) by (simp add: has_shape_row)
  next
    fix j assume "j < length (a ! i)"
    then have "j < N" using i assms(1) by (simp add: has_shape_row)
    with i show "a ! i ! j = b ! i ! j" by (rule assms(3))
  qed
qed

lemma elementwise_shape:
  "has_shape M N a \<Longrightarrow> has_shape M N b \<Longrightarrow> has_shape M N (elementwise f a b)"
  by (rule has_shapeI) (simp_all add: elementwise_def has_shape_rows has_shape_row)

lemma elementwise_nth:
  "has_shape M N a \<Longrightarrow> has_shape M N b \<Longrightarrow> i < M \<Longrightarrow> j < N \<Longrightarrow>
   elementwise f a b ! i ! j = f (a ! i ! j) (b ! i ! j)"
  by (simp add: elementwise_def has_shape_rows has_shape_row)

lemma gradient_x_shape: "has_shape M N T \<Longrightarrow> has_shape M N (gradient_x T)"
  by (rule has_shapeI) (simp_all add: gradient_x_def differences_def has_shape_rows has_shape_row)

lemma gradient_x_nth:
  "has_shape M N T \<Longrightarrow> i < M \<Longrightarrow> j < N \<Longrightarrow> gradient_x T ! i ! j = difference_at (T ! i) j"
  by (simp add: gradient_x_def differences_def has_shape_rows has_shape_row)

lemma transpose_shape:
  assumes "has_shape M N a" and "0 < M"
  shows "transpose a = map (\<lambda>j. map (\<lambda>i. a ! i ! j) [0..<M]) [0..<N]"
proof -
  have "transpose a = map (\<lambda>j. map (\<lambda>i. a ! i ! j) [0..<length a]) [0..<N]"
    using assms by (intro transpose_rectangle) (auto simp: has_shape_def list_all_length)
  then show ?thesis using assms by (simp add: has_shape_rows)
qed

lemma gradient_y_eq:
  assumes "has_shape M N T" and "0 < M" and "0 < N"
  shows "gradient_y T = map (\<lambda>i. map (\<lambda>j. difference_at (map (\<lambda>i. T ! i ! j) [0..<M]) i) [0..<N]) [0..<M]"
proof -
  let ?D = "map differences (transpose T)"
  have D: "?D = map (\<lambda>j. map (difference_at (map (\<lambda>i. T ! i ! j) [0..<M])) [0..<M]) [0..<N]"
    using assms by (simp add: transpose_shape differences_def)
  have "has_shape N M ?D"
    unfolding D by (rule has_shapeI) simp_all
  then have "transpose ?D = map (\<lambda>i. map (\<lambda>j. ?D ! j ! i) [0..<N]) [0..<M]"
    using assms(3) by (rule transpose_shape)
  also have "\<dots> = map (\<lambda>i. map (\<lambda>j. difference_at (map (\<lambda>i. T ! i ! j) [0..<M]) i) [0..<N]) [0..<M]"
    unfolding D by simp
  finally show ?thesis by (simp add: gradient_y_def)
qed

lemma gradient_y_shape:
  assumes "has_shape M N T" and "0 < M" and "0 < N"
  shows "has_shape M N (gradient_y T)"
  unfolding gradient_y_eq [OF assms] by (rule has_shapeI) simp_all

lemma gradient_y_nth:
  "has_shape M N T \<Longrightarrow> i < M \<Longrightarrow> j < N \<Longrightarrow>
   gradient_y T ! i ! j = difference_at (map (\<lambda>i. T ! i ! j) [0..<M]) i"
  by (simp add: gradient_y_eq)

lemma advection_ok:
  assumes "has_shape M N T" and "has_shape M N u" and "has_shape M N v"
    and "has_shape M N dx" and "has_shape M N dy" and "2 \<le> M" and "2 \<le> N"
  shows "advection T (u, v) (dx, dy) =
     Inr (elementwise (\<lambda>a b. - (a + b))
            (elementwise (*) u (elementwise (/) (gradient_x T) dx))
            (elementwise (*) v (elementwise (/) (gradient_y T) dy)))"
proof -
  have "nrows T = M \<and> ncols T = N"
    using assms(1,6) by (intro shape_of_field) simp_all
  then show ?thesis
    using assms by (simp add: advection_def Let_def)
qed

lemma advection_nth:
  assumes "has_shape M N T" and "has_shape M N u" and "has_shape M N v"
    and "has_shape M N dx" and "has_shape M N dy" and "2 \<le> M" and "2 \<le> N"
    and "i < M" and "j < N"
  shows "elementwise (\<lambda>a b. - (a + b))
            (elementwise (*) u (elementwise (/) (gradient_x T) dx))
            (elementwise (*) v (elementwise (/) (gradient_y T) dy)) ! i ! j =
         - (u ! i ! j * (difference_at (T ! i) j / dx ! i ! j) +
            v ! i ! j * (difference_at (map (\<lambda>i. T ! i ! j) [0..<M]) i / dy ! i ! j))"
proof -
  have gx: "has_shape M N (gradient_x T)"
    using assms(1) by (rule gradient_x_shape)
  have gy: "has_shape M N (gradient_y T)"
    using assms(1,6,7) by (intro gradient_y_shape) simp_all
  have dTdx: "has_shape M N (elementwise (/) (gradient_x T) dx)"
    using gx assms(4) by (rule elementwise_shape)
  have dTdy: "has_shape M N (elementwise (/) (gradient_y T) dy)"
    using gy assms(5) by (rule elementwise_shape)
  have ux: "has_shape M N (elementwise (*) u (elementwise (/) (gradient_x T) dx))"
    using assms(2) dTdx by (rule elementwise_shape)
  have vy: "has_shape M N (elementwise (*) v (elementwise (/) (gradient_y T) dy))"
    using assms(3) dTdy by (rule elementwise_shape)
  show ?thesis
    using assms(8,9)
    by (simp add: elementwise_nth [OF ux vy] elementwise_nth [OF assms(2) dTdx]
        elementwise_nth [OF assms(3) dTdy] elementwise_nth [OF gx assms(4)]
        elementwise_nth [OF gy assms(5)] gradient_x_nth [OF assms(1)] gradient_y_nth [OF assms(1)])
qed

lemma advection_shape:
  assumes "has_shape M N T" and "has_shape M N u" and "has_shape M N v"
    and "has_shape M N dx" and "has_shape M N dy" and "2 \<le> M" and "2 \<le> N"
  shows "has_shape M N (elementwise (\<lambda>a b. - (a + b))
            (elementwise (*) u (elementwise (/) (gradient_x T) dx))
            (elementwise (*) v (elementwise (/) (gradient_y T) dy)))"
proof -
  have "has_shape M N (gradient_y T)"
    using assms(1,6,7) by (intro gradient_y_shape) simp_all
  then show ?thesis
    using assms by (intro elementwise_shape gradient_x_shape)
qed

lemma scale_shape: "has_shape M N a \<Longrightarrow> has_shape M N (scale k a)"
  by (rule has_shapeI) (simp_all add: scale_def has_shape_rows has_shape_row)

lemma scale_nth: "has_shape M N a \<Longrightarrow> i < M \<Longrightarrow> j < N \<Longrightarrow> scale k a ! i ! j = k * a ! i ! j"
  by (simp add: scale_def has_shape_rows has_shape_row)

lemma uniform_shape: "has_shape M N (uniform M N t)"
  by (rule has_shapeI) (simp_all add: uniform_def)

lemma uniform_nth: "i < M \<Longrightarrow> j < N \<Longrightarrow> uniform M N t ! i ! j = t"
  by (simp add: uniform_def)

lemma difference_at_constant:
  "k < n \<Longrightarrow> 2 \<le> n \<Longrightarrow> difference_at (replicate n t) k = 0"
  by (simp add: difference_at_def)

section \<open>Properties of the advection operator\<close>

text \<open>
  C5. \<open>advection\<close> is linear in the wind: for a scalar field, wind components and spacing
  arrays of a common shape (at least two points along each axis, no zero spacing), the
  advection by \<open>(2u, 2v)\<close> is twice the advection by \<open>(u, v)\<close>, the scalar field and the
  spacing being the same. Over the reals the two are equal.
\<close>

theorem advection_linear_in_wind:
  assumes "has_shape M N T" and "has_shape M N u" and "has_shape M N v"
    and "has_shape M N dx" and "has_shape M N dy" and "2 \<le> M" and "2 \<le> N"
    and "nonzero dx" and "nonzero dy"
  shows "\<exists>A. advection T (u, v) (dx, dy) = Inr A \<and>
             advection T (scale 2 u, scale 2 v) (dx, dy) = Inr (scale 2 A)"
proof -
  let ?A = "elementwise (\<lambda>a b. - (a + b))
            (elementwise (*) u (elementwise (/) (gradient_x T) dx))
            (elementwise (*) v (elementwise (/) (gradient_y T) dy))"
  let ?B = "elementwise (\<lambda>a b. - (a + b))
            (elementwise (*) (scale 2 u) (elementwise (/) (gradient_x T) dx))
            (elementwise (*) (scale 2 v) (elementwise (/) (gradient_y T) dy))"
  have u2: "has_shape M N (scale 2 u)" and v2: "has_shape M N (scale 2 v)"
    using assms(2,3) by (simp_all add: scale_shape)
  have A: "advection T (u, v) (dx, dy) = Inr ?A"
    using assms(1-7) by (rule advection_ok)
  have B: "advection T (scale 2 u, scale 2 v) (dx, dy) = Inr ?B"
    using assms(1) u2 v2 assms(4-7) by (rule advection_ok)
  have sA: "has_shape M N ?A"
    using assms(1-7) by (rule advection_shape)
  have sB: "has_shape M N ?B"
    using assms(1) u2 v2 assms(4-7) by (rule advection_shape)
  have "?B = scale 2 ?A"
  proof (rule field_eqI [OF sB scale_shape [OF sA]])
    fix i j assume ij: "i < M" "j < N"
    have a: "?A ! i ! j =
         - (u ! i ! j * (difference_at (T ! i) j / dx ! i ! j) +
            v ! i ! j * (difference_at (map (\<lambda>i. T ! i ! j) [0..<M]) i / dy ! i ! j))"
      using assms(1-7) ij by (rule advection_nth)
    have b: "?B ! i ! j =
         - (scale 2 u ! i ! j * (difference_at (T ! i) j / dx ! i ! j) +
            scale 2 v ! i ! j * (difference_at (map (\<lambda>i. T ! i ! j) [0..<M]) i / dy ! i ! j))"
      using assms(1) u2 v2 assms(4-7) ij by (rule advection_nth)
    have "scale 2 ?A ! i ! j = 2 * ?A ! i ! j"
      using sA ij by (rule scale_nth)
    then show "?B ! i ! j = scale 2 ?A ! i ! j"
      unfolding a b using ij
      by (simp add: scale_nth [OF assms(2)] scale_nth [OF assms(3)] algebra_simps)
  qed
  with A B show ?thesis by simp
qed

theorem advection_linear_in_wind_witness:
  "has_shape 2 2 [[1, 2], [4, 8]] \<and> has_shape 2 2 [[1, 0], [3, 5]] \<and>
   has_shape 2 2 [[0, 1], [2, 1]] \<and> has_shape 2 2 (uniform 2 2 2) \<and>
   nonzero (uniform 2 2 2) \<and>
   advection [[1, 2], [4, 8]] ([[1, 0], [3, 5]], [[0, 1], [2, 1]]) (uniform 2 2 2, uniform 2 2 2)
     = Inr [[- 1 / 2, - 3], [- 9, - 13]] \<and>
   advection [[1, 2], [4, 8]] (scale 2 [[1, 0], [3, 5]], scale 2 [[0, 1], [2, 1]])
     (uniform 2 2 2, uniform 2 2 2) = Inr (scale 2 [[- 1 / 2, - 3], [- 9, - 13]])"
proof -
  have T: "has_shape 2 2 [[1, 2], [4, 8]]" and u: "has_shape 2 2 [[1, 0], [3, 5]]"
    and v: "has_shape 2 2 [[0, 1], [2, 1]]"
    by (simp_all add: has_shape_def)
  have d: "has_shape 2 2 (uniform 2 2 2)"
    by (rule uniform_shape)
  have n: "nonzero (uniform 2 2 2)"
    by (simp add: nonzero_def uniform_def numeral_2_eq_2)
  have A: "advection [[1, 2], [4, 8]] ([[1, 0], [3, 5]], [[0, 1], [2, 1]])
      (uniform 2 2 2, uniform 2 2 2) = Inr [[- 1 / 2, - 3], [- 9, - 13]]"
    by (simp add: advection_def Let_def nrows_def ncols_def has_shape_def gradient_x_def
        gradient_y_def differences_def difference_at_def elementwise_def uniform_def
        numeral_2_eq_2)
  from advection_linear_in_wind [OF T u v d d order_refl order_refl n n] A T u v d n
  show ?thesis by simp
qed

text \<open>
  C6. The advection of a spatially uniform scalar field is zero at every grid point, for
  every wind field and spacing of the same shape (at least two points along each axis, no
  zero spacing).
\<close>

theorem advection_uniform_zero:
  assumes "has_shape M N u" and "has_shape M N v"
    and "has_shape M N dx" and "has_shape M N dy" and "2 \<le> M" and "2 \<le> N"
    and "nonzero dx" and "nonzero dy"
  shows "advection (uniform M N t) (u, v) (dx, dy) = Inr (uniform M N 0)"
proof -
  let ?T = "uniform M N t"
  let ?A = "elementwise (\<lambda>a b. - (a + b))
            (elementwise (*) u (elementwise (/) (gradient_x ?T) dx))
            (elementwise (*) v (elementwise (/) (gradient_y ?T) dy))"
  have T: "has_shape M N ?T"
    by (rule uniform_shape)
  have A: "advection ?T (u, v) (dx, dy) = Inr ?A"
    using T assms(1-6) by (rule advection_ok)
  have sA: "has_shape M N ?A"
    using T assms(1-6) by (rule advection_shape)
  have "?A = uniform M N 0"
  proof (rule field_eqI [OF sA uniform_shape])
    fix i j assume ij: "i < M" "j < N"
    have row: "?T ! i = replicate N t"
      using ij by (simp add: uniform_def)
    have col: "map (\<lambda>i. ?T ! i ! j) [0..<M] = replicate M t"
      using ij by (intro nth_equalityI) (simp_all add: uniform_def)
    have "?A ! i ! j =
         - (u ! i ! j * (difference_at (?T ! i) j / dx ! i ! j) +
            v ! i ! j * (difference_at (map (\<lambda>i. ?T ! i ! j) [0..<M]) i / dy ! i ! j))"
      using T assms(1-6) ij by (rule advection_nth)
    then show "?A ! i ! j = uniform M N 0 ! i ! j"
      unfolding row col using ij assms(5,6)
      by (simp add: uniform_nth difference_at_constant)
  qed
  with A show ?thesis by simp
qed

theorem advection_uniform_zero_witness:
  "has_shape 2 3 [[1, 0, 2], [3, 5, 7]] \<and> has_shape 2 3 [[0, 1, 1], [2, 1, 4]] \<and>
   has_shape 2 3 (uniform 2 3 2) \<and> nonzero (uniform 2 3 2) \<and>
   advection (uniform 2 3 280) ([[1, 0, 2], [3, 5, 7]], [[0, 1, 1], [2, 1, 4]])
     (uniform 2 3 2, uniform 2 3 2) = Inr (uniform 2 3 0)"
proof -
  have u: "has_shape 2 3 [[1, 0, 2], [3, 5, 7]]" and v: "has_shape 2 3 [[0, 1, 1], [2, 1, 4]]"
    by (simp_all add: has_shape_def)
  have d: "has_shape 2 3 (uniform 2 3 2)"
    by (rule uniform_shape)
  have n: "nonzero (uniform 2 3 2)"
    by (simp add: nonzero_def uniform_def numeral_2_eq_2 numeral_3_eq_3)
  have two: "(2::nat) \<le> 2" "(2::nat) \<le> 3"
    by simp_all
  from advection_uniform_zero [OF u v d d two n n, of 280] u v d n show ?thesis
    by simp
qed

end
